theory Spec2Isabelle
  imports Main "HOL-Library.AList"
begin

section \<open>careBT: node state machinery and the sequence tick\<close>

text \<open>
  A shallow embedding of \<^verbatim>\<open>carebt/treeNode.py\<close>, \<^verbatim>\<open>carebt/actionNode.py\<close>,
  \<^verbatim>\<open>carebt/controlNode.py\<close> and \<^verbatim>\<open>carebt/sequenceNode.py\<close>.

  Conventions of the embedding.
  \<^item> Every method that mutates \<^verbatim>\<open>self\<close> takes the object as a record and returns
    the updated record. A method that can raise returns \<open>error + _\<close>, with \<open>Inl\<close>
    the Python exception.
  \<^item> The attributes that \<^verbatim>\<open>exec('self.{} = None')\<close>, \<^verbatim>\<open>setattr\<close> and
    \<^verbatim>\<open>getattr\<close> create, write and read are the association list \<open>attrs\<close> of the
    node, keyed by attribute name. Parameter names are taken not to collide with the
    attributes the classes themselves use (\<^verbatim>\<open>_child_ptr\<close>, \<^verbatim>\<open>_child_ec_list\<close>, ...).
  \<^item> The logger is the runner's. Calls of \<^verbatim>\<open>get_logger().warn\<close> are returned as
    \<open>Warn_\<close> events in the order they are made; \<^verbatim>\<open>trace\<close>, \<^verbatim>\<open>debug\<close> and
    \<^verbatim>\<open>info\<close> lines are left out. The same event list records where the sequence
    constructs a child, calls its \<^verbatim>\<open>_on_tick\<close>, runs a contingency handler, binds
    outputs and calls \<^verbatim>\<open>on_delete\<close>.
  \<^item> User hooks (\<^verbatim>\<open>on_init\<close>, \<^verbatim>\<open>on_tick\<close>, \<^verbatim>\<open>on_abort\<close>, contingency
    handlers) are parameters: functions on the record of the object they are methods of.
  \<^item> \<^verbatim>\<open>datetime.now()\<close> is an argument of the tick: a time stamp in microseconds
    (the resolution of \<^verbatim>\<open>datetime\<close>) counted from \<^verbatim>\<open>datetime.min\<close>.
  \<^item> The four source files name some methods differently:
    \<^verbatim>\<open>sequenceNode.py\<close> calls \<^verbatim>\<open>_internal_bind_in_params\<close>,
    \<^verbatim>\<open>_internal_tick_child\<close>, \<^verbatim>\<open>_internal_apply_contingencies\<close> and
    \<^verbatim>\<open>_internal_bind_out_params\<close>, which \<^verbatim>\<open>controlNode.py\<close> defines without the
    \<^verbatim>\<open>_internal\<close> prefix; \<^verbatim>\<open>controlNode.py\<close> calls \<^verbatim>\<open>get_in_params\<close>,
    \<^verbatim>\<open>get_out_params\<close>, \<^verbatim>\<open>get_message\<close> and \<^verbatim>\<open>set_message\<close>, which
    \<^verbatim>\<open>treeNode.py\<close> defines as \<^verbatim>\<open>_internal_get_in_params\<close>,
    \<^verbatim>\<open>_internal_get_out_params\<close>, \<^verbatim>\<open>get_contingency_message\<close> and
    \<^verbatim>\<open>set_contingency_message\<close>. A call whose name no file defines is resolved to
    the one method that differs by this renaming only; a call whose name is defined
    (\<^verbatim>\<open>abort\<close> calling \<^verbatim>\<open>_internal_on_abort\<close>, \<^verbatim>\<open>_tick_child\<close> calling
    \<^verbatim>\<open>_on_tick\<close>) is resolved as Python resolves it.
\<close>

subsection \<open>Values, statuses, exceptions, events\<close>

text \<open>
  Modelled from the spec: \<^verbatim>\<open>carebt/nodeStatus.py\<close> is not among the sources; the
  spec lists the seven variants of the enumeration.
\<close>

datatype NodeStatus = IDLE | RUNNING | SUSPENDED | SUCCESS | FAILURE | FIXED | ABORTED

text \<open>The Python values that parameters carry.\<close>

datatype pyval = PNone | PInt int | PBool bool | PStr string

datatype error = AttributeError | IndexError | Unmodelled

datatype event =
    Warn_arity string nat nat
  | Warn_output_not_set string string
  | Warn_output_not_provided string nat
  | Warn_on_timeout_default
  | Construct nat
  | OnInit nat
  | TickChild nat
  | RunHandler string
  | BindOut nat
  | OnDelete nat

subsection \<open>TreeNode\<close>

text \<open>
  \<open>timeout_timer\<close> is \<^verbatim>\<open>__timeout_timer\<close>: \<open>None\<close> is Python's \<^verbatim>\<open>None\<close>,
  \<open>Some ms\<close> the started \<^verbatim>\<open>Timer\<close> with its interval. The node holds the only
  reference to its timer.
\<close>

record TreeNode =
  node_status :: NodeStatus
  contingency_message :: string
  in_params :: "string list"
  out_params :: "string list"
  timeout_timer :: "int option"
  attrs :: "(string \<times> pyval) list"

definition get_status :: "'a TreeNode_scheme \<Rightarrow> NodeStatus" where
  "get_status n = node_status n"

definition get_contingency_message :: "'a TreeNode_scheme \<Rightarrow> string" where
  "get_contingency_message n = contingency_message n"

definition set_contingency_message :: "string \<Rightarrow> 'a TreeNode_scheme \<Rightarrow> 'a TreeNode_scheme" where
  "set_contingency_message m n = n\<lparr>contingency_message := m\<rparr>"

definition set_timeout :: "int \<Rightarrow> 'a TreeNode_scheme \<Rightarrow> 'a TreeNode_scheme" where
  "set_timeout timeout_ms n = n\<lparr>timeout_timer := Some timeout_ms\<rparr>"

definition cancel_timeout_timer :: "'a TreeNode_scheme \<Rightarrow> 'a TreeNode_scheme" where
  "cancel_timeout_timer n =
     (if timeout_timer n \<noteq> None then n\<lparr>timeout_timer := None\<rparr> else n)"

definition set_status :: "NodeStatus \<Rightarrow> 'a TreeNode_scheme \<Rightarrow> 'a TreeNode_scheme" where
  "set_status st n =
     (let n1 = n\<lparr>node_status := st\<rparr>
      in if st = SUCCESS \<or> st = FAILURE \<or> st = FIXED \<or> st = ABORTED
         then cancel_timeout_timer n1
         else n1)"

text \<open>\<^verbatim>\<open>TreeNode._internal_on_abort\<close>, the base implementation.\<close>

definition TreeNode_internal_on_abort :: "'a TreeNode_scheme \<Rightarrow> 'a TreeNode_scheme" where
  "TreeNode_internal_on_abort n = cancel_timeout_timer n"

text \<open>
  \<^verbatim>\<open>TreeNode.abort\<close> calls \<^verbatim>\<open>self._internal_on_abort()\<close>; the argument is the
  implementation that the class of \<^verbatim>\<open>self\<close> provides.
\<close>

definition abort :: "('n \<Rightarrow> error + 'n \<times> event list) \<Rightarrow> 'n \<Rightarrow> error + 'n \<times> event list" where
  "abort internal_on_abort n = internal_on_abort n"

text \<open>
  \<^verbatim>\<open>TreeNode.on_timeout\<close>, the default: a warning, \<^verbatim>\<open>self.abort()\<close>, then the
  message \<^verbatim>\<open>'TIMEOUT'\<close>.
\<close>

definition on_timeout ::
  "('a TreeNode_scheme \<Rightarrow> error + 'a TreeNode_scheme \<times> event list) \<Rightarrow> 'a TreeNode_scheme
     \<Rightarrow> error + 'a TreeNode_scheme \<times> event list" where
  "on_timeout internal_on_abort n =
     (case abort internal_on_abort n of
        Inl e \<Rightarrow> Inl e
      | Inr (n1, ev) \<Rightarrow> Inr (set_contingency_message ''TIMEOUT'' n1, Warn_on_timeout_default # ev))"

text \<open>
  \<^verbatim>\<open>TreeNode.__internal_on_timeout\<close>, the callback of the timer. Its first argument is
  the \<^verbatim>\<open>on_timeout\<close> of the node's class.
\<close>

definition internal_on_timeout ::
  "('a TreeNode_scheme \<Rightarrow> error + 'a TreeNode_scheme \<times> event list) \<Rightarrow> 'a TreeNode_scheme
     \<Rightarrow> error + 'a TreeNode_scheme \<times> event list" where
  "internal_on_timeout on_timeout_impl n =
     (if get_status n = RUNNING \<or> get_status n = SUSPENDED
      then (case on_timeout_impl n of
              Inl e \<Rightarrow> Inl e
            | Inr (n1, ev) \<Rightarrow> Inr (cancel_timeout_timer n1, ev))
      else Inr (cancel_timeout_timer n, []))"

text \<open>\<^verbatim>\<open>str.replace(old, new, 1)\<close> for one-character \<^verbatim>\<open>old\<close> and \<^verbatim>\<open>new\<close>.\<close>

fun replace_first :: "char \<Rightarrow> char \<Rightarrow> string \<Rightarrow> string" where
  "replace_first old new [] = []"
| "replace_first old new (c # cs) =
     (if c = old then new # cs else c # replace_first old new cs)"

text \<open>
  The two loops of \<^verbatim>\<open>TreeNode.__init__\<close> that create the parameter attributes:
  \<^verbatim>\<open>for p in filter(None, names): exec('self.{} = None'.format(p.replace('?', '_', 1)))\<close>.
\<close>

fun create_params :: "string list \<Rightarrow> (string \<times> pyval) list \<Rightarrow> (string \<times> pyval) list" where
  "create_params [] al = al"
| "create_params (p # ps) al =
     (if p = [] then create_params ps al
      else create_params ps (AList.update (replace_first (CHR ''?'') (CHR ''_'') p) PNone al))"

subsection \<open>ActionNode\<close>

text \<open>
  \<open>last_ts\<close> is \<^verbatim>\<open>__last_ts\<close> in microseconds since \<^verbatim>\<open>datetime.min\<close>, so that
  \<^verbatim>\<open>datetime.min\<close> itself is 0.
\<close>

record ActionNode = TreeNode +
  throttle_ms :: "int option"
  last_ts :: int


text \<open>
  \<^verbatim>\<open>int((current_ts - last_ts).total_seconds() * 1000)\<close>: the difference in
  milliseconds, rounded towards zero as \<^verbatim>\<open>int()\<close> does. The division is exact here;
  the source computes it in double precision.
\<close>

definition elapsed_ms :: "int \<Rightarrow> int \<Rightarrow> int" where
  "elapsed_ms last_t current_t =
     (let d = current_t - last_t in if 0 \<le> d then d div 1000 else - ((- d) div 1000))"

text \<open>
  \<^verbatim>\<open>ActionNode._on_tick\<close>. The first argument is the \<^verbatim>\<open>on_tick\<close> of the user's
  class, the second \<^verbatim>\<open>datetime.now()\<close>. The result says also whether \<^verbatim>\<open>on_tick\<close>
  was called.
\<close>

definition ActionNode_on_tick ::
  "(ActionNode \<Rightarrow> ActionNode) \<Rightarrow> int \<Rightarrow> ActionNode \<Rightarrow> ActionNode \<times> bool" where
  "ActionNode_on_tick on_tick current_ts a =
     (if (case throttle_ms a of None \<Rightarrow> True | Some t \<Rightarrow> t \<le> elapsed_ms (last_ts a) current_ts)
      then (if get_status a = IDLE \<or> get_status a = RUNNING
            then ((on_tick a)\<lparr>last_ts := current_ts\<rparr>, True)
            else (a, False))
      else (a, False))"


text \<open>
  The class of a child: its \<^verbatim>\<open>__name__\<close>, the input and output names that
  \<^verbatim>\<open>TreeNode.__init__\<close> splits off the declaration string, and the hooks. Its
  \<^verbatim>\<open>__init__\<close> is taken to call \<^verbatim>\<open>super().__init__(bt_runner, params)\<close> and
  nothing else.
\<close>

record NodeClass =
  cls_name :: string
  cls_in_params :: "string list"
  cls_out_params :: "string list"
  cls_on_init :: "ActionNode \<Rightarrow> ActionNode"
  cls_on_tick :: "ActionNode \<Rightarrow> ActionNode"

text \<open>\<^verbatim>\<open>ActionNode.__init__\<close> after \<^verbatim>\<open>TreeNode.__init__\<close>.\<close>

definition new_ActionNode :: "NodeClass \<Rightarrow> ActionNode" where
  "new_ActionNode cls =
     set_status IDLE
       \<lparr>node_status = IDLE, contingency_message = [],
        in_params = cls_in_params cls, out_params = cls_out_params cls,
        timeout_timer = None,
        attrs = create_params (cls_out_params cls) (create_params (cls_in_params cls) []),
        throttle_ms = None, last_ts = 0\<rparr>"

text \<open>
  An action's \<^verbatim>\<open>abort()\<close>: \<^verbatim>\<open>actionNode.py\<close> defines \<^verbatim>\<open>_on_abort\<close> but no
  \<^verbatim>\<open>_internal_on_abort\<close>, so the call in \<^verbatim>\<open>TreeNode.abort\<close> reaches the base
  implementation.
\<close>

definition ActionNode_internal_on_abort :: "ActionNode \<Rightarrow> error + ActionNode \<times> event list" where
  "ActionNode_internal_on_abort a = Inr (TreeNode_internal_on_abort a, [])"

subsection \<open>ControlNode: parameter binding\<close>

text \<open>
  Modelled from the spec: \<^verbatim>\<open>carebt/executionContext.py\<close> is not among the sources. A
  child descriptor holds the factory (\<open>node\<close>, which \<^verbatim>\<open>controlNode.py\<close> reads as
  \<^verbatim>\<open>node_as_class\<close>), the input and output call arguments and the live instance, if
  any. \<open>ec_id\<close> stands for the identity of the descriptor object: a contingency handler can
  take the descriptor out of the child list while \<^verbatim>\<open>_apply_contingencies\<close> still holds
  it.
\<close>

record ExecutionContext =
  ec_id :: nat
  node :: NodeClass
  call_in_params :: "pyval list"
  call_out_params :: "string list"
  instance_ec :: "ActionNode option"

text \<open>
  One call argument of \<^verbatim>\<open>_bind_in_params\<close>:
  \<^verbatim>\<open>if(isinstance(var, str) and var[0] == '?'): var = getattr(self, var.replace('?', '_', 1))\<close>.
\<close>

definition resolve_in :: "(string \<times> pyval) list \<Rightarrow> pyval \<Rightarrow> error + pyval" where
  "resolve_in self_attrs var =
     (case var of
        PStr str \<Rightarrow>
          (case str of
             [] \<Rightarrow> Inl IndexError
           | c # cs \<Rightarrow>
               if c = CHR ''?''
               then (case map_of self_attrs (replace_first (CHR ''?'') (CHR ''_'') str) of
                       None \<Rightarrow> Inl AttributeError
                     | Some v \<Rightarrow> Inr v)
               else Inr var)
      | _ \<Rightarrow> Inr var)"

text \<open>
  The loop \<^verbatim>\<open>for i, var in enumerate(child_ec.call_in_params)\<close>; the last argument is
  \<^verbatim>\<open>child_ec.instance\<close>.
\<close>

fun bind_in_loop ::
  "(string \<times> pyval) list \<Rightarrow> nat \<Rightarrow> pyval list \<Rightarrow> ActionNode \<Rightarrow> error + ActionNode" where
  "bind_in_loop self_attrs i [] c = Inr c"
| "bind_in_loop self_attrs i (var # vars) c =
     (case resolve_in self_attrs var of
        Inl e \<Rightarrow> Inl e
      | Inr v \<Rightarrow>
          if i < length (in_params c)
          then bind_in_loop self_attrs (Suc i) vars
                 (c\<lparr>attrs := AList.update (replace_first (CHR ''?'') (CHR ''_'') (in_params c ! i)) v
                                (attrs c)\<rparr>)
          else Inl IndexError)"

definition bind_in_params ::
  "'a TreeNode_scheme \<Rightarrow> ExecutionContext \<Rightarrow> error + ExecutionContext \<times> event list" where
  "bind_in_params self child_ec =
     (case instance_ec child_ec of
        None \<Rightarrow> Inl AttributeError
      | Some c \<Rightarrow>
          (case bind_in_loop (attrs self) 0 (call_in_params child_ec) c of
             Inl e \<Rightarrow> Inl e
           | Inr c1 \<Rightarrow>
               Inr (child_ec\<lparr>instance_ec := Some c1\<rparr>,
                    if length (call_in_params child_ec) \<noteq> length (in_params c)
                    then [Warn_arity (cls_name (node child_ec)) (length (in_params c))
                            (length (call_in_params child_ec))]
                    else [])))"

text \<open>
  One \<^verbatim>\<open>setattr\<close> of the input binding: the pair is the declared name and the value.
\<close>

definition bind_step :: "(string \<times> pyval) list \<Rightarrow> string \<times> pyval \<Rightarrow> (string \<times> pyval) list" where
  "bind_step al p = AList.update (replace_first (CHR ''?'') (CHR ''_'') (fst p)) (snd p) al"

text \<open>
  The loop \<^verbatim>\<open>for i, var in enumerate(child_ec.instance.get_out_params())\<close> of
  \<^verbatim>\<open>_bind_out_params\<close>: the arguments are the class name for the warnings, the
  instance, \<^verbatim>\<open>child_ec.call_out_params\<close>, the index, the output names still to
  visit, and \<^verbatim>\<open>self\<close>.
\<close>

fun bind_out_loop ::
  "string \<Rightarrow> ActionNode \<Rightarrow> string list \<Rightarrow> nat \<Rightarrow> string list \<Rightarrow> 'a TreeNode_scheme
     \<Rightarrow> error + 'a TreeNode_scheme \<times> event list" where
  "bind_out_loop cls c call_out i [] self = Inr (self, [])"
| "bind_out_loop cls c call_out i (var0 # vars) self =
     (let var = replace_first (CHR ''?'') (CHR ''_'') var0 in
      case map_of (attrs c) var of
        None \<Rightarrow> Inl AttributeError
      | Some PNone \<Rightarrow>
          (case bind_out_loop cls c call_out (Suc i) vars self of
             Inl e \<Rightarrow> Inl e
           | Inr (self1, ev) \<Rightarrow>
               Inr (self1, Warn_output_not_set cls (replace_first (CHR ''_'') (CHR ''?'') var) # ev))
      | Some v \<Rightarrow>
          if length call_out \<le> i
          then (case bind_out_loop cls c call_out (Suc i) vars self of
                  Inl e \<Rightarrow> Inl e
                | Inr (self1, ev) \<Rightarrow> Inr (self1, Warn_output_not_provided cls i # ev))
          else bind_out_loop cls c call_out (Suc i) vars
                 (self\<lparr>attrs := AList.update (replace_first (CHR ''?'') (CHR ''_'') (call_out ! i)) v
                                   (attrs self)\<rparr>))"

definition bind_out_params ::
  "'a TreeNode_scheme \<Rightarrow> ExecutionContext \<Rightarrow> error + 'a TreeNode_scheme \<times> event list" where
  "bind_out_params self child_ec =
     (case instance_ec child_ec of
        None \<Rightarrow> Inl AttributeError
      | Some c \<Rightarrow>
          bind_out_loop (cls_name (node child_ec)) c (call_out_params child_ec) 0 (out_params c) self)"

text \<open>
  \<^verbatim>\<open>ControlNode._tick_child\<close>; \<open>i\<close> is the position of the child, for the event.
\<close>

definition tick_child ::
  "int \<Rightarrow> nat \<Rightarrow> ExecutionContext \<Rightarrow> error + ExecutionContext \<times> event list" where
  "tick_child current_ts i child_ec =
     (case instance_ec child_ec of
        None \<Rightarrow> Inl AttributeError
      | Some c \<Rightarrow>
          if get_status c = IDLE \<or> get_status c = RUNNING
          then Inr (child_ec\<lparr>instance_ec :=
                       Some (fst (ActionNode_on_tick (cls_on_tick (node child_ec)) current_ts c))\<rparr>,
                    [TickChild i])
          else Inr (child_ec, []))"

subsection \<open>ControlNode: contingency handlers\<close>

text \<open>\<^verbatim>\<open>str.replace(old, new)\<close> for a one-character \<^verbatim>\<open>old\<close>.\<close>

fun str_replace :: "char \<Rightarrow> string \<Rightarrow> string \<Rightarrow> string" where
  "str_replace old new [] = []"
| "str_replace old new (c # cs) =
     (if c = old then new @ str_replace old new cs else c # str_replace old new cs)"

text \<open>\<^verbatim>\<open>ControlNode.__wildcard_to_regex\<close>, up to \<^verbatim>\<open>re.compile\<close>.\<close>

definition wildcard_to_regex :: "string \<Rightarrow> string" where
  "wildcard_to_regex wildcard =
     str_replace (CHR ''*'') ''.*'' (str_replace (CHR ''?'') ''.'' wildcard)"

text \<open>
  \<^verbatim>\<open>re.compile\<close> and \<^verbatim>\<open>re.match\<close> on the regular expressions that
  \<open>wildcard_to_regex\<close> produces from wildcards without the characters
  \<^verbatim>\<open>^ $ + { } [ ] ( ) |\<close> and the backslash: a character stands for itself, \<^verbatim>\<open>.\<close> for any
  character but a newline, \<^verbatim>\<open>.*\<close> for any run of such characters. Every
  \<^verbatim>\<open>*\<close> of such an expression follows a \<^verbatim>\<open>.\<close>. Other expressions are
  outside the model: \<open>re_compile\<close> gives \<open>None\<close> for them.
\<close>

datatype re_item = Lit char | Dot | DotStar

definition re_special :: "char \<Rightarrow> bool" where
  "re_special c =
     (c \<in> set [CHR 0x5C, CHR ''^'', CHR ''$'', CHR ''+'', CHR ''?'', CHR ''{'', CHR ''}'',
                CHR ''['', CHR '']'', CHR ''('', CHR '')'', CHR ''|'', CHR ''*''])"

fun re_compile :: "string \<Rightarrow> re_item list option" where
  "re_compile [] = Some []"
| "re_compile [c] =
     (if c = CHR ''.'' then Some [Dot] else if re_special c then None else Some [Lit c])"
| "re_compile (c # d # cs) =
     (if c = CHR ''.'' \<and> d = CHR ''*'' then map_option ((#) DotStar) (re_compile cs)
      else if c = CHR ''.'' then map_option ((#) Dot) (re_compile (d # cs))
      else if re_special c then None
      else map_option ((#) (Lit c)) (re_compile (d # cs)))"

text \<open>
  \<^verbatim>\<open>re.match\<close>: the expression must match at the start of the string; what follows
  the match is not looked at.
\<close>

fun re_match :: "re_item list \<Rightarrow> string \<Rightarrow> bool" where
  "re_match [] str = True"
| "re_match (Lit c # r) [] = False"
| "re_match (Lit c # r) (x # xs) = (x = c \<and> re_match r xs)"
| "re_match (Dot # r) [] = False"
| "re_match (Dot # r) (x # xs) = (x \<noteq> CHR 0x0A \<and> re_match r xs)"
| "re_match (DotStar # r) [] = re_match r []"
| "re_match (DotStar # r) (x # xs) =
     (re_match r (x # xs) \<or> (x \<noteq> CHR 0x0A \<and> re_match (DotStar # r) xs))"

text \<open>
  A registration, as \<^verbatim>\<open>attach_contingency_handler\<close> stores it: the class or a
  wildcard string, the list of statuses, the message wildcard and the name of the
  handler function.
\<close>

datatype class_or_str = AsClass NodeClass | AsStr string

type_synonym contingency_handler = "class_or_str \<times> NodeStatus list \<times> string \<times> string"

text \<open>
  The test of one registration in \<^verbatim>\<open>_apply_contingencies\<close>, against the class name,
  status and message of the child: \<open>None\<close> when one of its two patterns is outside the
  model.
\<close>

definition handler_matches ::
  "contingency_handler \<Rightarrow> string \<Rightarrow> NodeStatus \<Rightarrow> string \<Rightarrow> bool option" where
  "handler_matches h child_class child_status child_message =
     (case h of
        (cls, statuses, message, fname) \<Rightarrow>
          (case re_compile (wildcard_to_regex (case cls of AsStr w \<Rightarrow> w | AsClass k \<Rightarrow> cls_name k)) of
             None \<Rightarrow> None
           | Some regexClassName \<Rightarrow>
               (case re_compile (wildcard_to_regex message) of
                  None \<Rightarrow> None
                | Some regexMessage \<Rightarrow>
                    Some (re_match regexClassName child_class
                          \<and> child_status \<in> set statuses
                          \<and> re_match regexMessage child_message))))"

text \<open>What a character of a wildcard stands for, as an item of the expression.\<close>

fun wildcard_item :: "char \<Rightarrow> re_item" where
  "wildcard_item c =
     (if c = CHR ''?'' \<or> c = CHR ''.'' then Dot else if c = CHR ''*'' then DotStar else Lit c)"

subsection \<open>SequenceNode\<close>

text \<open>
  \<open>contingency_message_attr\<close> is the attribute \<^verbatim>\<open>_contingency_message\<close> that
  \<^verbatim>\<open>_internal_on_tick\<close> writes; it is not \<^verbatim>\<open>__contingency_message\<close>, the field
  behind \<^verbatim>\<open>get_contingency_message\<close>. \<open>ec_count\<close> numbers the descriptors that
  \<open>append_child\<close> creates.
\<close>

record SequenceNode = TreeNode +
  child_ec_list :: "ExecutionContext list"
  child_ptr :: nat
  contingency_handler_list :: "contingency_handler list"
  contingency_message_attr :: string
  ec_count :: nat

text \<open>
  The methods of the user's subclass that \<^verbatim>\<open>exec('self.{}()'.format(name))\<close> can
  call, by name.
\<close>

type_synonym handlers = "string \<Rightarrow> (SequenceNode \<Rightarrow> error + SequenceNode) option"

text \<open>\<^verbatim>\<open>ControlNode.__init__\<close> for a sequence with the given parameter names.\<close>

definition new_SequenceNode :: "string list \<Rightarrow> string list \<Rightarrow> SequenceNode" where
  "new_SequenceNode ins outs =
     set_status IDLE
       \<lparr>node_status = IDLE, contingency_message = [],
        in_params = ins, out_params = outs, timeout_timer = None,
        attrs = create_params outs (create_params ins []),
        child_ec_list = [], child_ptr = 0, contingency_handler_list = [],
        contingency_message_attr = [], ec_count = 0\<rparr>"



text \<open>\<^verbatim>\<open>self._child_ec_list[self._child_ptr]\<close>.\<close>

definition current_ec :: "SequenceNode \<Rightarrow> error + ExecutionContext" where
  "current_ec s =
     (if child_ptr s < length (child_ec_list s) then Inr (child_ec_list s ! child_ptr s)
      else Inl IndexError)"

text \<open>\<^verbatim>\<open>self._child_ec_list[self._child_ptr].instance = v\<close>, where the index is in range.\<close>

definition set_current_instance :: "ActionNode option \<Rightarrow> SequenceNode \<Rightarrow> SequenceNode" where
  "set_current_instance v s =
     s\<lparr>child_ec_list :=
         (child_ec_list s)[child_ptr s := (child_ec_list s ! child_ptr s)\<lparr>instance_ec := v\<rparr>]\<rparr>"


text \<open>
  What \<^verbatim>\<open>_apply_contingencies\<close> does for the registration that matches: it runs
  the handler with \<^verbatim>\<open>exec('self.{}()'.format(name))\<close>. The \<^verbatim>\<open>debug\<close> line
  after the handler reads \<^verbatim>\<open>child_ec.instance.get_status()\<close>, which raises when the
  handler has left the descriptor without an instance; a descriptor that the handler
  took out of the list keeps its instance.
\<close>

definition run_handler ::
  "handlers \<Rightarrow> ExecutionContext \<Rightarrow> string \<Rightarrow> SequenceNode \<Rightarrow> error + SequenceNode \<times> event list" where
  "run_handler H child_ec fname s =
     (case H fname of
        None \<Rightarrow> Inl AttributeError
      | Some f \<Rightarrow>
          (case f s of
             Inl e \<Rightarrow> Inl e
           | Inr s1 \<Rightarrow>
               (case find (\<lambda>e. ec_id e = ec_id child_ec) (child_ec_list s1) of
                  None \<Rightarrow> Inr (s1, [RunHandler fname])
                | Some ec1 \<Rightarrow>
                    (case instance_ec ec1 of
                       None \<Rightarrow> Inl AttributeError
                     | Some c1 \<Rightarrow> Inr (s1, [RunHandler fname])))))"

text \<open>
  The loop of \<^verbatim>\<open>_apply_contingencies\<close> over the registrations still to visit: the
  handler of the first registration that matches is run, and the \<^verbatim>\<open>break\<close> ends the
  loop there.
\<close>

fun apply_contingencies_loop ::
  "handlers \<Rightarrow> ExecutionContext \<Rightarrow> ActionNode \<Rightarrow> contingency_handler list \<Rightarrow> SequenceNode
     \<Rightarrow> error + SequenceNode \<times> event list" where
  "apply_contingencies_loop H child_ec c [] s = Inr (s, [])"
| "apply_contingencies_loop H child_ec c (h # hs) s =
     (case handler_matches h (cls_name (node child_ec)) (get_status c) (get_contingency_message c) of
        None \<Rightarrow> Inl Unmodelled
      | Some False \<Rightarrow> apply_contingencies_loop H child_ec c hs s
      | Some True \<Rightarrow> run_handler H child_ec (snd (snd (snd h))) s)"

text \<open>\<^verbatim>\<open>ControlNode._apply_contingencies\<close>.\<close>

definition apply_contingencies ::
  "handlers \<Rightarrow> ExecutionContext \<Rightarrow> SequenceNode \<Rightarrow> error + SequenceNode \<times> event list" where
  "apply_contingencies H child_ec s =
     (case instance_ec child_ec of
        None \<Rightarrow> Inl AttributeError
      | Some c \<Rightarrow> apply_contingencies_loop H child_ec c (contingency_handler_list s) s)"

text \<open>
  Lines 71 to 76 of \<^verbatim>\<open>sequenceNode.py\<close>: if the current child has no instance,
  construct one, bind its inputs and call \<^verbatim>\<open>on_init\<close>.
\<close>

definition create_child :: "SequenceNode \<Rightarrow> error + SequenceNode \<times> event list" where
  "create_child s =
     (case current_ec s of
        Inl e \<Rightarrow> Inl e
      | Inr ec \<Rightarrow>
          (case instance_ec ec of
             Some c \<Rightarrow> Inr (s, [])
           | None \<Rightarrow>
               (case bind_in_params s (ec\<lparr>instance_ec := Some (new_ActionNode (node ec))\<rparr>) of
                  Inl e \<Rightarrow> Inl e
                | Inr (ec1, warns) \<Rightarrow>
                    Inr (set_current_instance (map_option (cls_on_init (node ec1)) (instance_ec ec1)) s,
                         Construct (child_ptr s) # warns @ [OnInit (child_ptr s)]))))"

text \<open>Lines 71 to 79: the child is created if need be, then ticked.\<close>

definition tick_current :: "int \<Rightarrow> SequenceNode \<Rightarrow> error + SequenceNode \<times> event list" where
  "tick_current current_ts s =
     (case create_child s of
        Inl e \<Rightarrow> Inl e
      | Inr (s1, ev1) \<Rightarrow>
          (case current_ec s1 of
             Inl e \<Rightarrow> Inl e
           | Inr ec \<Rightarrow>
               (case tick_child current_ts (child_ptr s1) ec of
                  Inl e \<Rightarrow> Inl e
                | Inr (ec1, ev2) \<Rightarrow>
                    Inr (s1\<lparr>child_ec_list := (child_ec_list s1)[child_ptr s1 := ec1]\<rparr>, ev1 @ ev2))))"

text \<open>Line 80: contingency dispatch for the current child.\<close>

definition dispatch :: "handlers \<Rightarrow> SequenceNode \<Rightarrow> error + SequenceNode \<times> event list" where
  "dispatch H s =
     (case current_ec s of
        Inl e \<Rightarrow> Inl e
      | Inr ec \<Rightarrow> apply_contingencies H ec s)"

text \<open>
  Lines 84 to 114: how to proceed. Line 95 reads the status of the child a second time;
  between the two reads only the sequence itself has changed, so one read stands for
  both.
\<close>

definition examine_child :: "SequenceNode \<Rightarrow> error + SequenceNode \<times> event list" where
  "examine_child s =
     (if get_status s = RUNNING
      then (case current_ec s of
              Inl e \<Rightarrow> Inl e
            | Inr ec \<Rightarrow>
                (case instance_ec ec of
                   None \<Rightarrow> Inr (s, [])
                 | Some c \<Rightarrow>
                     (let cur_child_state = get_status c;
                          s1 = (if cur_child_state = FAILURE \<or> cur_child_state = ABORTED
                                then set_contingency_message (get_contingency_message c)
                                       (set_status cur_child_state s)
                                else s)
                      in if cur_child_state = SUCCESS \<or> cur_child_state = FIXED
                         then (case (if cur_child_state \<noteq> FIXED
                                     then (case bind_out_params
                                                  (s1\<lparr>contingency_message_attr := get_contingency_message c\<rparr>) ec of
                                             Inl e \<Rightarrow> Inl e
                                           | Inr (s2, warns) \<Rightarrow> Inr (s2, BindOut (child_ptr s) # warns))
                                     else Inr (s1\<lparr>contingency_message_attr := get_contingency_message c\<rparr>, [])) of
                                 Inl e \<Rightarrow> Inl e
                               | Inr (s2, ev) \<Rightarrow>
                                   (let s3 = set_current_instance None s2
                                    in Inr (if child_ptr s3 + 1 < length (child_ec_list s3)
                                            then s3\<lparr>child_ptr := child_ptr s3 + 1\<rparr>
                                            else set_contingency_message (contingency_message_attr s3)
                                                   (set_status SUCCESS s3),
                                            ev @ [OnDelete (child_ptr s)])))
                         else Inr (s1, []))))
      else Inr (s, []))"

text \<open>Lines 116 to 123: a finished sequence releases the child it still holds.\<close>

definition release_if_finished :: "SequenceNode \<Rightarrow> error + SequenceNode \<times> event list" where
  "release_if_finished s =
     (if get_status s = SUCCESS \<or> get_status s = FAILURE
         \<or> get_status s = ABORTED \<or> get_status s = FIXED
      then (case current_ec s of
              Inl e \<Rightarrow> Inl e
            | Inr ec \<Rightarrow>
                (case instance_ec ec of
                   None \<Rightarrow> Inr (s, [])
                 | Some c \<Rightarrow> Inr (set_current_instance None s, [OnDelete (child_ptr s)])))
      else Inr (s, []))"

text \<open>Lines 84 to 123.\<close>

definition proceed :: "SequenceNode \<Rightarrow> error + SequenceNode \<times> event list" where
  "proceed s =
     (case examine_child s of
        Inl e \<Rightarrow> Inl e
      | Inr (s1, ev1) \<Rightarrow>
          (case release_if_finished s1 of
             Inl e \<Rightarrow> Inl e
           | Inr (s2, ev2) \<Rightarrow> Inr (s2, ev1 @ ev2)))"

text \<open>Lines 71 to 80.\<close>

definition tick_and_dispatch ::
  "handlers \<Rightarrow> int \<Rightarrow> SequenceNode \<Rightarrow> error + SequenceNode \<times> event list" where
  "tick_and_dispatch H current_ts s =
     (case tick_current current_ts s of
        Inl e \<Rightarrow> Inl e
      | Inr (s1, ev1) \<Rightarrow>
          (case dispatch H s1 of
             Inl e \<Rightarrow> Inl e
           | Inr (s2, ev2) \<Rightarrow> Inr (s2, ev1 @ ev2)))"

text \<open>Lines 62 and 63.\<close>

definition enter_running :: "SequenceNode \<Rightarrow> SequenceNode" where
  "enter_running s = (if get_status s \<noteq> RUNNING then set_status RUNNING s else s)"

text \<open>
  \<^verbatim>\<open>SequenceNode._internal_on_tick\<close>: one tick of the sequence at the time
  \<open>current_ts\<close>, with the handler methods \<open>H\<close> of its class.
\<close>

definition SequenceNode_internal_on_tick ::
  "handlers \<Rightarrow> int \<Rightarrow> SequenceNode \<Rightarrow> error + SequenceNode \<times> event list" where
  "SequenceNode_internal_on_tick H current_ts s =
     (let s0 = enter_running s
      in if length (child_ec_list s0) = 0 then Inr (s0, [])
         else (case tick_and_dispatch H current_ts s0 of
                 Inl e \<Rightarrow> Inl e
               | Inr (s2, ev1) \<Rightarrow>
                   (case proceed s2 of
                      Inl e \<Rightarrow> Inl e
                    | Inr (s3, ev2) \<Rightarrow> Inr (s3, ev1 @ ev2))))"


text \<open>
  \<^verbatim>\<open>SequenceNode._internal_on_abort\<close>; the first argument is the \<^verbatim>\<open>on_abort\<close> of
  the user's class. The child is an action, whose \<^verbatim>\<open>_internal_on_abort\<close> is the base
  implementation.
\<close>

definition SequenceNode_internal_on_abort ::
  "(SequenceNode \<Rightarrow> SequenceNode) \<Rightarrow> SequenceNode \<Rightarrow> error + SequenceNode \<times> event list" where
  "SequenceNode_internal_on_abort on_abort s =
     (let s1 = TreeNode_internal_on_abort s
      in case current_ec s1 of
           Inl e \<Rightarrow> Inl e
         | Inr ec \<Rightarrow>
             (case instance_ec ec of
                None \<Rightarrow> Inl AttributeError
              | Some c \<Rightarrow>
                  (let c1 = (if get_status c = RUNNING \<or> get_status c = SUSPENDED
                             then TreeNode_internal_on_abort c else c);
                       s2 = set_contingency_message (get_contingency_message c1)
                              (set_status ABORTED (set_current_instance (Some c1) s1))
                   in Inr (on_abort (set_current_instance None s2), [OnDelete (child_ptr s)]))))"

subsection \<open>Runs of a sequence\<close>







subsection \<open>Example nodes\<close>

text \<open>
  The tree of \<^verbatim>\<open>tests/test_sequence.py\<close>: \<^verbatim>\<open>SimpleSequence\<close> declares
  \<^verbatim>\<open>'?name'\<close> and has the children \<^verbatim>\<open>HelloWorldAction\<close>,
  \<^verbatim>\<open>SayHelloAction '?name'\<close> and \<^verbatim>\<open>SayHelloAction '"Alice"'\<close>. The actions are
  those of the spec's scenarios: \<^verbatim>\<open>SayHelloAction\<close> fails with
  \<^verbatim>\<open>BOB_IS_NOT_ALLOWED\<close> for the name Bob and succeeds otherwise. The argument of
  \<open>SimpleSequence\<close> is the value the runner binds to \<^verbatim>\<open>?name\<close>.
\<close>

definition HelloWorldAction :: NodeClass where
  "HelloWorldAction =
     \<lparr>cls_name = ''HelloWorldAction'', cls_in_params = [], cls_out_params = [],
      cls_on_init = (\<lambda>a. a), cls_on_tick = set_status SUCCESS\<rparr>"

definition SayHelloAction :: NodeClass where
  "SayHelloAction =
     \<lparr>cls_name = ''SayHelloAction'', cls_in_params = [''?name''], cls_out_params = [],
      cls_on_init = (\<lambda>a. a),
      cls_on_tick = (\<lambda>a. if map_of (attrs a) ''_name'' = Some (PStr ''Bob'')
                           then set_contingency_message ''BOB_IS_NOT_ALLOWED'' (set_status FAILURE a)
                           else set_status SUCCESS a)\<rparr>"


text \<open>An action that is running, with a timeout of 100 ms pending.\<close>

definition running_action :: ActionNode where
  "running_action = set_timeout 100 (set_status RUNNING (new_ActionNode HelloWorldAction))"














section \<open>Properties\<close>

declare get_status_def [simp] get_contingency_message_def [simp]




subsection \<open>Basic facts\<close>

lemma cancel_timeout_timer_eq: "cancel_timeout_timer n = n\<lparr>timeout_timer := None\<rparr>"
proof (cases "timeout_timer n")
  case None
  then have "n\<lparr>timeout_timer := None\<rparr> = n\<lparr>timeout_timer := timeout_timer n\<rparr>" by simp
  then show ?thesis using None by (simp add: cancel_timeout_timer_def)
next
  case (Some a)
  then show ?thesis by (simp add: cancel_timeout_timer_def)
qed

lemma set_status_terminal:
  "st = SUCCESS \<or> st = FAILURE \<or> st = FIXED \<or> st = ABORTED
     \<Longrightarrow> set_status st n = n\<lparr>node_status := st, timeout_timer := None\<rparr>"
  by (auto simp add: set_status_def cancel_timeout_timer_eq Let_def)

lemma current_ec_Inr:
  "current_ec s = Inr ec \<longleftrightarrow>
     child_ptr s < length (child_ec_list s) \<and> child_ec_list s ! child_ptr s = ec"
  by (auto simp add: current_ec_def)

lemma current_ec_set_current_instance:
  "current_ec s = Inr ec \<Longrightarrow> current_ec (set_current_instance v s) = Inr (ec\<lparr>instance_ec := v\<rparr>)"
  by (auto simp add: current_ec_def set_current_instance_def split: if_splits)



subsection \<open>Status assignments and the timeout timer\<close>

text \<open>
  C6. Assigning SUCCESS, FAILURE, FIXED or ABORTED through \<open>set_status\<close> leaves the node
  without a timeout timer, whatever timer it held; assigning RUNNING or SUSPENDED changes
  the status field only, so a pending timer stays as it is.
\<close>

theorem set_status_timer:
  "timeout_timer (set_status SUCCESS n) = None
   \<and> timeout_timer (set_status FAILURE n) = None
   \<and> timeout_timer (set_status FIXED n) = None
   \<and> timeout_timer (set_status ABORTED n) = None
   \<and> node_status (set_status st n) = st
   \<and> set_status RUNNING n = n\<lparr>node_status := RUNNING\<rparr>
   \<and> set_status SUSPENDED n = n\<lparr>node_status := SUSPENDED\<rparr>
   \<and> timeout_timer (set_status RUNNING n) = timeout_timer n
   \<and> timeout_timer (set_status SUSPENDED n) = timeout_timer n"
  by (auto simp add: set_status_def cancel_timeout_timer_def Let_def)

subsection \<open>Ticking an empty sequence\<close>

text \<open>
  C9. A tick of a sequence whose child list is empty returns the sequence with its status
  set to RUNNING and nothing else changed (cursor, contingency message, attributes, timer
  and registrations are those of before), and it constructs and ticks no child: the
  event list is empty. The status is RUNNING, not SUCCESS.
\<close>

theorem empty_sequence_tick:
  assumes "child_ec_list s = []"
  shows "SequenceNode_internal_on_tick H t s = Inr (s\<lparr>node_status := RUNNING\<rparr>, [])"
  using assms
  by (simp add: SequenceNode_internal_on_tick_def enter_running_def set_status_def get_status_def)

theorem empty_sequence_tick_witness:
  "child_ec_list (new_SequenceNode [] []) = []
   \<and> SequenceNode_internal_on_tick (\<lambda>n. None) 0 (new_SequenceNode [] [])
       = Inr ((new_SequenceNode [] [])\<lparr>node_status := RUNNING\<rparr>, [])
   \<and> node_status ((new_SequenceNode [] [])\<lparr>node_status := RUNNING\<rparr>) \<noteq> SUCCESS"
proof -
  have e: "child_ec_list (new_SequenceNode [] []) = []"
    by (simp add: new_SequenceNode_def set_status_def)
  show ?thesis
    using e empty_sequence_tick [OF e, of "\<lambda>n. None" 0] by simp
qed

subsection \<open>Abort and timeout of an action\<close>

text \<open>
  C3. On an action, \<^verbatim>\<open>abort()\<close> reaches \<^verbatim>\<open>TreeNode._internal_on_abort\<close>, which
  cancels the timer and does nothing else: a running action stays RUNNING. When its
  timeout fires with the default \<^verbatim>\<open>on_timeout\<close>, the action ends RUNNING with the
  message TIMEOUT and without a timer, not ABORTED.
\<close>

theorem action_abort_not_aborted:
  "node_status running_action = RUNNING
   \<and> timeout_timer running_action = Some 100
   \<and> abort ActionNode_internal_on_abort running_action
       = Inr (running_action\<lparr>timeout_timer := None\<rparr>, [])
   \<and> internal_on_timeout (on_timeout ActionNode_internal_on_abort) running_action
       = Inr (running_action\<lparr>contingency_message := ''TIMEOUT'', timeout_timer := None\<rparr>,
              [Warn_on_timeout_default])"
  by (simp add: running_action_def new_ActionNode_def HelloWorldAction_def set_timeout_def
        set_status_def abort_def ActionNode_internal_on_abort_def TreeNode_internal_on_abort_def
        cancel_timeout_timer_def internal_on_timeout_def on_timeout_def get_status_def
        set_contingency_message_def)

text \<open>
  A sequence does what an action does not: with a live current child, \<^verbatim>\<open>abort()\<close>
  cancels the timer, sets ABORTED, takes the child's message, releases the child and
  runs \<^verbatim>\<open>on_abort\<close>. Without an instance at the cursor it raises at line 129.
\<close>

lemma SequenceNode_abort_live_child:
  assumes "current_ec s = Inr ec" and "instance_ec ec = Some c"
  shows "abort (SequenceNode_internal_on_abort on_abort) s
     = Inr (on_abort (set_current_instance None
                        (s\<lparr>node_status := ABORTED, timeout_timer := None,
                           contingency_message := contingency_message c\<rparr>)),
            [OnDelete (child_ptr s)])"
proof -
  have cur: "current_ec (TreeNode_internal_on_abort s) = Inr ec"
    using assms(1) by (simp add: TreeNode_internal_on_abort_def cancel_timeout_timer_eq current_ec_Inr)
  have msg: "contingency_message (if node_status c = RUNNING \<or> node_status c = SUSPENDED
                then TreeNode_internal_on_abort c else c) = contingency_message c"
    by (simp add: TreeNode_internal_on_abort_def cancel_timeout_timer_eq)
  have p: "child_ptr s < length (child_ec_list s)"
    using assms(1) by (simp add: current_ec_Inr)
  show ?thesis
    using cur assms(2) msg p
    by (auto simp add: abort_def SequenceNode_internal_on_abort_def Let_def set_status_terminal
          set_contingency_message_def set_current_instance_def TreeNode_internal_on_abort_def
          cancel_timeout_timer_eq)
qed

lemma SequenceNode_abort_no_instance:
  assumes "current_ec s = Inr ec" and "instance_ec ec = None"
  shows "abort (SequenceNode_internal_on_abort on_abort) s = Inl AttributeError"
proof -
  have cur: "current_ec (TreeNode_internal_on_abort s) = Inr ec"
    using assms(1) by (simp add: TreeNode_internal_on_abort_def cancel_timeout_timer_eq current_ec_Inr)
  show ?thesis
    using cur assms(2)
    by (simp add: abort_def SequenceNode_internal_on_abort_def Let_def)
qed

subsection \<open>Input binding with more call arguments than declared inputs\<close>

text \<open>
  C7. \<^verbatim>\<open>_bind_in_params\<close> walks the call arguments, not the shorter list: with two
  call arguments for a child that declares one input, the second round of the loop
  indexes the declared inputs out of range and the binding raises IndexError.
\<close>

theorem bind_in_params_longer_call:
  "bind_in_params (new_SequenceNode [] [])
     \<lparr>ec_id = 0, node = SayHelloAction, call_in_params = [PStr ''Dave'', PInt 2],
      call_out_params = [], instance_ec = Some (new_ActionNode SayHelloAction)\<rparr>
   = Inl IndexError"
  by (simp add: bind_in_params_def new_ActionNode_def SayHelloAction_def set_status_def
        resolve_in_def)

text \<open>
  When the binding returns: exactly when the call arguments are not more than the
  declared inputs and each of them resolves (a literal to itself, a reference to the
  parent's attribute). It then has bound the call arguments position by position, and
  has logged the arity warning if the two lengths differ.
\<close>

lemma bind_in_loop_binds:
  "bind_in_loop sa i vars c = Inr c1 \<longleftrightarrow>
     (vars = [] \<or> i + length vars \<le> length (in_params c))
     \<and> (\<forall>x \<in> set vars. \<not> isl (resolve_in sa x))
     \<and> c1 = c\<lparr>attrs := foldl bind_step (attrs c)
                          (zip (drop i (in_params c)) (map (\<lambda>x. projr (resolve_in sa x)) vars))\<rparr>"
proof (induction vars arbitrary: i c)
  case Nil
  then show ?case by auto
next
  case (Cons var vars)
  show ?case
  proof (cases "resolve_in sa var")
    case (Inl e)
    then show ?thesis by auto
  next
    case (Inr v)
    show ?thesis
    proof (cases "i < length (in_params c)")
      case False
      with Inr show ?thesis by auto
    next
      case True
      let ?c = "c\<lparr>attrs := AList.update (replace_first (CHR ''?'') (CHR ''_'') (in_params c ! i)) v (attrs c)\<rparr>"
      have step: "bind_in_loop sa i (var # vars) c = bind_in_loop sa (Suc i) vars ?c"
        using Inr True by simp
      have dr: "drop i (in_params c) = in_params c ! i # drop (Suc i) (in_params c)"
        using True by (simp add: Cons_nth_drop_Suc)
      have "bind_in_loop sa (Suc i) vars ?c = Inr c1 \<longleftrightarrow>
         (vars = [] \<or> Suc i + length vars \<le> length (in_params c))
         \<and> (\<forall>x \<in> set vars. \<not> isl (resolve_in sa x))
         \<and> c1 = ?c\<lparr>attrs := foldl bind_step (attrs ?c)
                  (zip (drop (Suc i) (in_params c)) (map (\<lambda>x. projr (resolve_in sa x)) vars))\<rparr>"
        using Cons.IH [of "Suc i" ?c] by simp
      also have "\<dots> \<longleftrightarrow>
         (i + length (var # vars) \<le> length (in_params c))
         \<and> (\<forall>x \<in> set (var # vars). \<not> isl (resolve_in sa x))
         \<and> c1 = c\<lparr>attrs := foldl bind_step (attrs c)
                  (zip (drop i (in_params c)) (map (\<lambda>x. projr (resolve_in sa x)) (var # vars)))\<rparr>"
        using Inr True dr
        by (auto simp add: bind_step_def)
      finally show ?thesis using step by simp
    qed
  qed
qed

lemma bind_in_params_binds:
  assumes "instance_ec ec = Some c"
  shows "bind_in_params self ec = Inr (ec1, warns) \<longleftrightarrow>
     (call_in_params ec = [] \<or> length (call_in_params ec) \<le> length (in_params c))
     \<and> (\<forall>x \<in> set (call_in_params ec). \<not> isl (resolve_in (attrs self) x))
     \<and> ec1 = ec\<lparr>instance_ec := Some (c\<lparr>attrs := foldl bind_step (attrs c)
                  (zip (in_params c) (map (\<lambda>x. projr (resolve_in (attrs self) x)) (call_in_params ec)))\<rparr>)\<rparr>
     \<and> warns = (if length (call_in_params ec) \<noteq> length (in_params c)
                 then [Warn_arity (cls_name (node ec)) (length (in_params c)) (length (call_in_params ec))]
                 else [])"
proof -
  let ?c1 = "c\<lparr>attrs := foldl bind_step (attrs c)
                  (zip (in_params c) (map (\<lambda>x. projr (resolve_in (attrs self) x)) (call_in_params ec)))\<rparr>"
  have key: "bind_in_loop (attrs self) 0 (call_in_params ec) c = Inr ?c1 \<longleftrightarrow>
     (call_in_params ec = [] \<or> length (call_in_params ec) \<le> length (in_params c))
     \<and> (\<forall>x \<in> set (call_in_params ec). \<not> isl (resolve_in (attrs self) x))"
    using bind_in_loop_binds [of "attrs self" 0 "call_in_params ec" c ?c1] by simp
  have det: "\<And>x. bind_in_loop (attrs self) 0 (call_in_params ec) c = Inr x \<Longrightarrow> x = ?c1"
    using bind_in_loop_binds [of "attrs self" 0 "call_in_params ec" c] by simp
  show ?thesis
  proof (cases "bind_in_loop (attrs self) 0 (call_in_params ec) c")
    case (Inl e)
    with key have "\<not> ((call_in_params ec = [] \<or> length (call_in_params ec) \<le> length (in_params c))
     \<and> (\<forall>x \<in> set (call_in_params ec). \<not> isl (resolve_in (attrs self) x)))"
      by simp
    with Inl assms show ?thesis by (auto simp add: bind_in_params_def)
  next
    case (Inr x)
    with det have x: "x = ?c1" by simp
    with Inr key have "(call_in_params ec = [] \<or> length (call_in_params ec) \<le> length (in_params c))
     \<and> (\<forall>x \<in> set (call_in_params ec). \<not> isl (resolve_in (attrs self) x))"
      by simp
    with Inr x assms show ?thesis by (auto simp add: bind_in_params_def)
  qed
qed

subsection \<open>The throttle of an action\<close>







subsection \<open>Output binding and outputs that are not set\<close>




subsection \<open>Contingency dispatch\<close>




text \<open>
  What a pattern means: a wildcard without other metacharacters compiles item by item,
  \<^verbatim>\<open>?\<close> (and \<^verbatim>\<open>.\<close>) to any one character but a newline, \<^verbatim>\<open>*\<close> to any run of
  such characters, another character to itself; and a string that matches still matches
  with anything appended, since \<^verbatim>\<open>re.match\<close> anchors the pattern at the start only.
\<close>

lemma re_compile_dot:
  "xs = [] \<or> hd xs \<noteq> CHR ''*'' \<Longrightarrow> re_compile (CHR ''.'' # xs) = map_option ((#) Dot) (re_compile xs)"
  by (cases xs) auto

lemma re_compile_lit:
  "\<not> re_special c \<Longrightarrow> c \<noteq> CHR ''.'' \<Longrightarrow> re_compile (c # xs) = map_option ((#) (Lit c)) (re_compile xs)"
  by (cases xs) auto

lemma wildcard_to_regex_Cons:
  "wildcard_to_regex (c # w) =
     (if c = CHR ''?'' then CHR ''.'' # wildcard_to_regex w
      else if c = CHR ''*'' then CHR ''.'' # CHR ''*'' # wildcard_to_regex w
      else c # wildcard_to_regex w)"
  by (simp add: wildcard_to_regex_def)

lemma wildcard_to_regex_hd:
  "wildcard_to_regex w = [] \<or> hd (wildcard_to_regex w) \<noteq> CHR ''*''"
  by (cases w) (auto simp add: wildcard_to_regex_Cons, simp add: wildcard_to_regex_def)

lemma wildcard_compiles:
  assumes "\<forall>c \<in> set w. \<not> re_special c \<or> c = CHR ''?'' \<or> c = CHR ''*''"
  shows "re_compile (wildcard_to_regex w) = Some (map wildcard_item w)"
  using assms
proof (induction w)
  case Nil
  then show ?case by (simp add: wildcard_to_regex_def)
next
  case (Cons c w)
  then have ih: "re_compile (wildcard_to_regex w) = Some (map wildcard_item w)" by simp
  show ?case
  proof (cases "c = CHR ''?'' \<or> c = CHR ''.''")
    case True
    then have "wildcard_to_regex (c # w) = CHR ''.'' # wildcard_to_regex w"
      by (auto simp add: wildcard_to_regex_Cons)
    with re_compile_dot [OF wildcard_to_regex_hd [of w]] ih True show ?thesis by simp
  next
    case False
    show ?thesis
    proof (cases "c = CHR ''*''")
      case True
      with ih show ?thesis by (simp add: wildcard_to_regex_Cons)
    next
      case star: False
      with False Cons.prems have ns: "\<not> re_special c" by simp
      from False star have "wildcard_to_regex (c # w) = c # wildcard_to_regex w"
        by (simp add: wildcard_to_regex_Cons)
      with re_compile_lit [OF ns] False star ih show ?thesis by simp
    qed
  qed
qed

lemma re_match_DotStar_skip: "re_match r str \<Longrightarrow> re_match (DotStar # r) str"
  by (cases str) auto

lemma re_match_prefix: "re_match r str \<Longrightarrow> re_match r (str @ rest)"
  by (induction r str rule: re_match.induct) (auto simp add: re_match_DotStar_skip)

subsection \<open>How the sequence proceeds after dispatch\<close>

































subsection \<open>A child that fails\<close>



subsection \<open>A child that was fixed\<close>



subsection \<open>A sequence of successes\<close>





end
